theory Spec2Isabelle
  imports Complex_Main
begin

section \<open>Double values\<close>

text \<open>
  The controller computes on C++ \<^verbatim>\<open>double\<close>. Its branches depend on the special values
  (\<^verbatim>\<open>std::isnan\<close>, comparisons that are false on not-a-number), so the model keeps them:
  a value is not-a-number, one of the two infinities, or a finite number. Finite
  arithmetic is exact here: rounding, overflow to infinity and the sign of zero are
  not modelled. Every operation follows IEEE 754 on the special values. The results
  are stated so that they do not rest on the exact arithmetic: they are bounds by a
  clamp limit, equalities between values that the code copies or composes by the
  same operations, and evaluations at values that doubles represent exactly.
\<close>

datatype double = NaN | PInf | NInf | Fin real

fun isnan :: "double \<Rightarrow> bool" where
  "isnan NaN = True"
| "isnan _ = False"

fun isfinite :: "double \<Rightarrow> bool" where
  "isfinite (Fin _) = True"
| "isfinite _ = False"

text \<open>Unary minus.\<close>

fun dneg :: "double \<Rightarrow> double" where
  "dneg NaN = NaN"
| "dneg PInf = NInf"
| "dneg NInf = PInf"
| "dneg (Fin a) = Fin (- a)"

text \<open>Addition: opposite infinities give not-a-number.\<close>

fun dadd :: "double \<Rightarrow> double \<Rightarrow> double" where
  "dadd NaN _ = NaN"
| "dadd _ NaN = NaN"
| "dadd PInf NInf = NaN"
| "dadd NInf PInf = NaN"
| "dadd PInf _ = PInf"
| "dadd _ PInf = PInf"
| "dadd NInf _ = NInf"
| "dadd _ NInf = NInf"
| "dadd (Fin a) (Fin b) = Fin (a + b)"

text \<open>Subtraction \<^verbatim>\<open>a - b\<close> is \<^verbatim>\<open>a + (-b)\<close>.\<close>

definition dsub :: "double \<Rightarrow> double \<Rightarrow> double" where
  "dsub a b = dadd a (dneg b)"

text \<open>Multiplication: zero times an infinity gives not-a-number.\<close>

fun dmul :: "double \<Rightarrow> double \<Rightarrow> double" where
  "dmul NaN _ = NaN"
| "dmul _ NaN = NaN"
| "dmul PInf PInf = PInf"
| "dmul PInf NInf = NInf"
| "dmul NInf PInf = NInf"
| "dmul NInf NInf = PInf"
| "dmul PInf (Fin b) = (if b = 0 then NaN else if 0 < b then PInf else NInf)"
| "dmul NInf (Fin b) = (if b = 0 then NaN else if 0 < b then NInf else PInf)"
| "dmul (Fin a) PInf = (if a = 0 then NaN else if 0 < a then PInf else NInf)"
| "dmul (Fin a) NInf = (if a = 0 then NaN else if 0 < a then NInf else PInf)"
| "dmul (Fin a) (Fin b) = Fin (a * b)"

text \<open>
  Division. A zero divisor is read as positive zero (the model has one zero); the
  controller divides only by a \<^verbatim>\<open>dt\<close> it has tested to be greater than zero.
\<close>

fun ddiv :: "double \<Rightarrow> double \<Rightarrow> double" where
  "ddiv NaN _ = NaN"
| "ddiv _ NaN = NaN"
| "ddiv PInf PInf = NaN"
| "ddiv PInf NInf = NaN"
| "ddiv NInf PInf = NaN"
| "ddiv NInf NInf = NaN"
| "ddiv PInf (Fin b) = (if b < 0 then NInf else PInf)"
| "ddiv NInf (Fin b) = (if b < 0 then PInf else NInf)"
| "ddiv (Fin a) PInf = Fin 0"
| "ddiv (Fin a) NInf = Fin 0"
| "ddiv (Fin a) (Fin b) =
     (if b = 0 then (if a = 0 then NaN else if 0 < a then PInf else NInf)
      else Fin (a / b))"

text \<open>The comparison \<^verbatim>\<open>a > b\<close>: false as soon as one side is not-a-number.\<close>

fun dgt :: "double \<Rightarrow> double \<Rightarrow> bool" where
  "dgt NaN _ = False"
| "dgt _ NaN = False"
| "dgt PInf PInf = False"
| "dgt PInf _ = True"
| "dgt _ PInf = False"
| "dgt NInf _ = False"
| "dgt _ NInf = True"
| "dgt (Fin a) (Fin b) = (b < a)"

text \<open>The comparison \<^verbatim>\<open>a < b\<close>.\<close>

definition dlt :: "double \<Rightarrow> double \<Rightarrow> bool" where
  "dlt a b = dgt b a"

text \<open>The comparison \<^verbatim>\<open>a <= b\<close>, used to state bounds.\<close>

fun dle :: "double \<Rightarrow> double \<Rightarrow> bool" where
  "dle NaN _ = False"
| "dle _ NaN = False"
| "dle NInf _ = True"
| "dle _ PInf = True"
| "dle PInf _ = False"
| "dle _ NInf = False"
| "dle (Fin a) (Fin b) = (a \<le> b)"

text \<open>The magnitude \<^verbatim>\<open>fabs\<close>.\<close>

fun dabs :: "double \<Rightarrow> double" where
  "dabs NaN = NaN"
| "dabs PInf = PInf"
| "dabs NInf = PInf"
| "dabs (Fin a) = Fin \<bar>a\<bar>"

text \<open>
  \<^verbatim>\<open>cos\<close> and \<^verbatim>\<open>sin\<close>: not-a-number outside the finite values. The results take
  them at zero only, where the library functions are exact.
\<close>

fun dcos :: "double \<Rightarrow> double" where
  "dcos (Fin a) = Fin (cos a)"
| "dcos _ = NaN"

fun dsin :: "double \<Rightarrow> double" where
  "dsin (Fin a) = Fin (sin a)"
| "dsin _ = NaN"

section \<open>The data of the pose controller\<close>

text \<open>
  \<^verbatim>\<open>struct parameters\<close>: one set per channel group, filled by \<^verbatim>\<open>initParameters\<close>.
\<close>

record parameters =
  enabled :: bool
  k_p :: double
  k_i :: double
  k_d :: double
  limit_i :: double
  limit_output :: double

text \<open>
  \<^verbatim>\<open>struct state\<close> with its fields \<^verbatim>\<open>p\<close>, \<^verbatim>\<open>i\<close>, \<^verbatim>\<open>d\<close> and \<^verbatim>\<open>derivative\<close>.
\<close>

record state =
  st_p :: double
  st_i :: double
  st_d :: double
  st_derivative :: double

text \<open>
  The member \<^verbatim>\<open>state_\<close> with the four slots \<^verbatim>\<open>x\<close>, \<^verbatim>\<open>y\<close>, \<^verbatim>\<open>z\<close>, \<^verbatim>\<open>yaw\<close> that
  \<^verbatim>\<open>update\<close> passes to \<^verbatim>\<open>updatePID\<close>, and the member \<^verbatim>\<open>parameters_\<close> with the three
  sets \<^verbatim>\<open>xy\<close>, \<^verbatim>\<open>z\<close>, \<^verbatim>\<open>yaw\<close>.
\<close>

record channel_states =
  state_x :: state
  state_y :: state
  state_z :: state
  state_yaw :: state

record channel_parameters =
  param_xy :: parameters
  param_z :: parameters
  param_yaw :: parameters

text \<open>
  The controller object: the members \<^verbatim>\<open>state_\<close>, \<^verbatim>\<open>parameters_\<close> and
  \<^verbatim>\<open>start_time_\<close> that the modelled methods read or write.
\<close>

record 't controller =
  ctrl_state :: channel_states
  ctrl_parameters :: channel_parameters
  ctrl_start_time :: 't

text \<open>\<^verbatim>\<open>geometry_msgs::Twist\<close>, all components zero when default constructed.\<close>

record twist =
  linear_x :: double
  linear_y :: double
  linear_z :: double
  angular_x :: double
  angular_y :: double
  angular_z :: double

definition twist_default :: twist where
  "twist_default =
     \<lparr>linear_x = Fin 0, linear_y = Fin 0, linear_z = Fin 0,
      angular_x = Fin 0, angular_y = Fin 0, angular_z = Fin 0\<rparr>"

section \<open>Parameters and reset\<close>

text \<open>
  \<^verbatim>\<open>initParameters\<close>: each field gets its default and is then overwritten by the
  parameter server when the key is present. The record \<open>param_server\<close> holds what
  the node handle answers for each key: \<open>None\<close> when the key is absent.
\<close>

record param_server =
  get_enabled :: "bool option"
  get_k_p :: "double option"
  get_k_i :: "double option"
  get_k_d :: "double option"
  get_limit_i :: "double option"
  get_limit_output :: "double option"

definition initParameters :: "param_server \<Rightarrow> parameters" where
  "initParameters nh =
     \<lparr>enabled = (case get_enabled nh of None \<Rightarrow> True | Some v \<Rightarrow> v),
      k_p = (case get_k_p nh of None \<Rightarrow> Fin 0 | Some v \<Rightarrow> v),
      k_i = (case get_k_i nh of None \<Rightarrow> Fin 0 | Some v \<Rightarrow> v),
      k_d = (case get_k_d nh of None \<Rightarrow> Fin 0 | Some v \<Rightarrow> v),
      limit_i = (case get_limit_i nh of None \<Rightarrow> NaN | Some v \<Rightarrow> v),
      limit_output = (case get_limit_output nh of None \<Rightarrow> NaN | Some v \<Rightarrow> v)\<rparr>"

text \<open>The constructor \<^verbatim>\<open>state::state()\<close>.\<close>

definition state_init :: state where
  "state_init = \<lparr>st_p = NaN, st_i = Fin 0, st_d = NaN, st_derivative = NaN\<rparr>"

text \<open>
  \<^verbatim>\<open>reset\<close>, its four assignments in the order of the source: \<^verbatim>\<open>x\<close>, \<^verbatim>\<open>y\<close>, \<^verbatim>\<open>x\<close>
  again, \<^verbatim>\<open>yaw\<close>.
\<close>

definition reset :: "channel_states \<Rightarrow> channel_states" where
  "reset s =
     (let s1 = s\<lparr>state_x := state_init\<rparr>;
          s2 = s1\<lparr>state_y := state_init\<rparr>;
          s3 = s2\<lparr>state_x := state_init\<rparr>;
          s4 = s3\<lparr>state_yaw := state_init\<rparr>
      in s4)"

text \<open>\<^verbatim>\<open>starting\<close>: reset, then record the start time.\<close>

definition starting :: "'t \<Rightarrow> 't controller \<Rightarrow> 't controller" where
  "starting time c = c\<lparr>ctrl_state := reset (ctrl_state c), ctrl_start_time := time\<rparr>"

section \<open>The PID step\<close>

text \<open>\<^verbatim>\<open>checknan\<close>: a not-a-number value is replaced by \<^verbatim>\<open>T()\<close>, which is zero.\<close>

definition checknan :: "double \<Rightarrow> double" where
  "checknan v = (if isnan v then Fin 0 else v)"

text \<open>
  The integral clamp of \<^verbatim>\<open>updatePID\<close>: two successive tests on the accumulated
  integral, run only when \<^verbatim>\<open>limit_i > 0.0\<close>.
\<close>

definition clamp_integral :: "parameters \<Rightarrow> double \<Rightarrow> double" where
  "clamp_integral param v =
     (if dgt (limit_i param) (Fin 0) then
        (let v1 = (if dgt v (limit_i param) then limit_i param else v);
             v2 = (if dlt v1 (dneg (limit_i param)) then dneg (limit_i param) else v1)
         in v2)
      else v)"

text \<open>
  The derivative term of \<^verbatim>\<open>updatePID\<close>: the difference quotient corrected by the
  measured rate, or the negated measured rate.
\<close>

definition differential :: "double \<Rightarrow> double \<Rightarrow> state \<Rightarrow> double \<Rightarrow> double" where
  "differential error derivative st dt =
     (if dgt dt (Fin 0) \<and> \<not> isnan (st_p st) \<and> \<not> isnan (st_derivative st)
      then dsub (dadd (ddiv (dsub error (st_p st)) dt) (st_derivative st)) derivative
      else dneg derivative)"

text \<open>
  The output clamp of \<^verbatim>\<open>updatePID\<close>: guarded by \<^verbatim>\<open>limit_output > 0.0\<close>, it compares
  with and assigns \<^verbatim>\<open>limit_i\<close>; the second test reads the output the first one left.
  The result is the output and the flag \<^verbatim>\<open>antiwindup\<close>.
\<close>

definition clamp_output :: "parameters \<Rightarrow> double \<Rightarrow> double \<times> int" where
  "clamp_output param output =
     (if dgt (limit_output param) (Fin 0) then
        (let (o1, a1) = (if dgt output (limit_i param) then (limit_i param, 1)
                         else (output, 0));
             (o2, a2) = (if dlt o1 (dneg (limit_i param)) then (dneg (limit_i param), - 1)
                         else (o1, a1))
         in (o2, a2))
      else (output, 0))"

text \<open>
  The test \<^verbatim>\<open>antiwindup && (error * dt * antiwindup > 0.0)\<close> that guards the
  correction of the integral.
\<close>

definition antiwindup_test :: "double \<Rightarrow> double \<Rightarrow> int \<Rightarrow> bool" where
  "antiwindup_test error dt antiwindup =
     (antiwindup \<noteq> 0 \<and> dgt (dmul (dmul error dt) (Fin (of_int antiwindup))) (Fin 0))"

text \<open>
  \<^verbatim>\<open>updatePID\<close>. The argument \<open>dt\<close> is \<^verbatim>\<open>period.toSec()\<close>; the result is the returned
  output together with the state the call leaves behind.
\<close>

definition updatePID ::
  "double \<Rightarrow> double \<Rightarrow> state \<Rightarrow> parameters \<Rightarrow> double \<Rightarrow> double \<times> state" where
  "updatePID error derivative st param dt =
     (if \<not> enabled param then (Fin 0, st)
      else
        (let i1 = clamp_integral param (dadd (st_i st) (dmul error dt));
             d1 = differential error derivative st dt;
             output = dadd (dadd (dmul (k_p param) error) (dmul (k_i param) i1))
                           (dmul (k_d param) d1);
             (output', antiwindup) = clamp_output param output;
             i2 = (if antiwindup_test error dt antiwindup then dsub i1 (dmul error dt)
                   else i1)
         in (checknan output',
             \<lparr>st_p = error, st_i = i2, st_d = d1, st_derivative = derivative\<rparr>)))"

text \<open>
  Whether a call of \<open>updatePID\<close> runs the correction \<^verbatim>\<open>state.i -= error * dt\<close>: the
  channel is enabled and the test on \<^verbatim>\<open>antiwindup\<close> succeeds on the output that
  the call computes.
\<close>

definition antiwindup_applied ::
  "double \<Rightarrow> double \<Rightarrow> state \<Rightarrow> parameters \<Rightarrow> double \<Rightarrow> bool" where
  "antiwindup_applied error derivative st param dt =
     (enabled param \<and>
      (let i1 = clamp_integral param (dadd (st_i st) (dmul error dt));
           d1 = differential error derivative st dt;
           output = dadd (dadd (dmul (k_p param) error) (dmul (k_i param) i1))
                         (dmul (k_d param) d1)
       in antiwindup_test error dt (snd (clamp_output param output))))"

text \<open>
  A sequence of calls of \<open>updatePID\<close> on one channel, each call given by its error,
  its measured rate and its period; the result is the state after the last call.
\<close>

fun run_updatePID :: "parameters \<Rightarrow> state \<Rightarrow> (double \<times> double \<times> double) list \<Rightarrow> state" where
  "run_updatePID param st [] = st"
| "run_updatePID param st ((error, derivative, dt) # cs) =
     run_updatePID param (snd (updatePID error derivative st param dt)) cs"

section \<open>One control tick\<close>

text \<open>
  What \<^verbatim>\<open>update\<close> reads through its handles: the horizontal errors, the height error,
  the heading error, the measured twist and the measured yaw.
\<close>

record measurement =
  error_n :: double
  error_w :: double
  error_height :: double
  error_heading :: double
  meas_twist :: twist
  meas_yaw :: double

text \<open>
  \<^verbatim>\<open>update\<close>: the two horizontal channels, the rotation into body coordinates, the
  height channel and the yaw channel. The result is the command handed to
  \<^verbatim>\<open>velocity_.setCommand\<close> and the controller with its four states updated.
\<close>

definition update :: "measurement \<Rightarrow> double \<Rightarrow> 't controller \<Rightarrow> twist \<times> 't controller" where
  "update m dt c =
     (let command = twist_default;
          (command_n, sx) = updatePID (error_n m) (linear_x (meas_twist m))
                              (state_x (ctrl_state c)) (param_xy (ctrl_parameters c)) dt;
          (command_w, sy) = updatePID (error_w m) (linear_y (meas_twist m))
                              (state_y (ctrl_state c)) (param_xy (ctrl_parameters c)) dt;
          yaw = meas_yaw m;
          command = command\<lparr>linear_x :=
                      dadd (dmul (dcos yaw) command_n) (dmul (dsin yaw) command_w)\<rparr>;
          command = command\<lparr>linear_y :=
                      dadd (dmul (dneg (dsin yaw)) command_n) (dmul (dcos yaw) command_w)\<rparr>;
          (command_z, sz) = updatePID (error_height m) (linear_z (meas_twist m))
                              (state_z (ctrl_state c)) (param_z (ctrl_parameters c)) dt;
          command = command\<lparr>linear_z := command_z\<rparr>;
          (command_yaw, syaw) = updatePID (error_heading m) (angular_z (meas_twist m))
                              (state_yaw (ctrl_state c)) (param_yaw (ctrl_parameters c)) dt;
          command = command\<lparr>angular_z := command_yaw\<rparr>
      in (command,
          c\<lparr>ctrl_state :=
              \<lparr>state_x = sx, state_y = sy, state_z = sz, state_yaw = syaw\<rparr>\<rparr>))"

section \<open>Example inputs\<close>

text \<open>
  Concrete parameter sets, states and measurements at which the results below are
  evaluated: a channel with proportional gain one and no limits, a state that has
  been in use, and a controller whose horizontal channels also integrate.
\<close>

definition gains_p :: parameters where
  "gains_p = \<lparr>enabled = True, k_p = Fin 1, k_i = Fin 0, k_d = Fin 0,
              limit_i = NaN, limit_output = NaN\<rparr>"

definition used_state :: state where
  "used_state = \<lparr>st_p = Fin 1, st_i = Fin 2, st_d = Fin 3, st_derivative = Fin 4\<rparr>"

definition example_controller :: "nat controller" where
  "example_controller =
     \<lparr>ctrl_state = \<lparr>state_x = state_init, state_y = state_init,
                    state_z = state_init, state_yaw = state_init\<rparr>,
      ctrl_parameters = \<lparr>param_xy = gains_p\<lparr>k_i := Fin 1\<rparr>, param_z = gains_p,
                         param_yaw = gains_p\<rparr>,
      ctrl_start_time = 0\<rparr>"

definition example_measurement :: measurement where
  "example_measurement =
     \<lparr>error_n = Fin 1, error_w = Fin 3, error_height = Fin 0, error_heading = Fin 0,
      meas_twist = twist_default, meas_yaw = Fin 0\<rparr>"

section \<open>Facts about the double operations\<close>

lemma isnan_iff: "isnan v \<longleftrightarrow> v = NaN"
  by (cases v) simp_all

lemma dadd_NaN_right: "dadd v NaN = NaN"
  by (cases v) simp_all

lemma dgt_NaN_right: "\<not> dgt v NaN"
  by (cases v) simp_all

lemma dsub_NaN_left: "dsub NaN v = NaN"
  by (simp add: dsub_def)

lemma dle_not_dgt: "dle a b \<Longrightarrow> \<not> dgt a b"
  by (cases a; cases b) simp_all

lemma checknan_not_nan: "\<not> isnan (checknan v)"
  by (simp add: checknan_def)

section \<open>Facts about the stages of the PID step\<close>

lemmas eval_defs =
  updatePID_def clamp_integral_def differential_def clamp_output_def antiwindup_test_def
  checknan_def state_init_def dsub_def dlt_def Let_def

lemma updatePID_st_i:
  "enabled param \<Longrightarrow>
   st_i (snd (updatePID error derivative st param dt)) =
     (if antiwindup_applied error derivative st param dt
      then dsub (clamp_integral param (dadd (st_i st) (dmul error dt))) (dmul error dt)
      else clamp_integral param (dadd (st_i st) (dmul error dt)))"
  by (simp add: updatePID_def antiwindup_applied_def Let_def split: prod.split)

lemma updatePID_st_d:
  "enabled param \<Longrightarrow>
   st_d (snd (updatePID error derivative st param dt)) = differential error derivative st dt"
  by (simp add: updatePID_def Let_def split: prod.split)

lemma updatePID_output:
  "enabled param \<Longrightarrow>
   fst (updatePID error derivative st param dt) =
     checknan (fst (clamp_output param
       (dadd (dadd (dmul (k_p param) error)
                   (dmul (k_i param) (clamp_integral param (dadd (st_i st) (dmul error dt)))))
             (dmul (k_d param) (differential error derivative st dt)))))"
  by (simp add: updatePID_def Let_def split: prod.split)

lemma updatePID_output_checked: "\<not> isnan (fst (updatePID error derivative st param dt))"
  by (simp add: updatePID_def Let_def checknan_not_nan split: prod.split)

lemma clamp_integral_NaN: "clamp_integral param NaN = NaN"
  by (simp add: clamp_integral_def Let_def dlt_def dgt_NaN_right)

lemma clamp_integral_bound:
  assumes "limit_i param = Fin L" and "0 < L" and "\<not> isnan v"
  shows "dle (dabs (clamp_integral param v)) (Fin L)"
  using assms by (cases v) (auto simp: clamp_integral_def Let_def dlt_def)

lemma clamp_output_limit_i_NaN:
  "limit_i param = NaN \<Longrightarrow> clamp_output param out = (out, 0)"
  by (simp add: clamp_output_def dlt_def dgt_NaN_right)

lemma clamp_output_bound:
  assumes "dgt (limit_output param) (Fin 0)" and "\<not> isnan (limit_i param)"
  shows "dle (dabs (checknan (fst (clamp_output param out)))) (dabs (limit_i param))"
  using assms
  by (cases out; cases "limit_i param")
     (auto simp: clamp_output_def Let_def dlt_def checknan_def)

lemma updatePID_no_output_limit:
  assumes "enabled param" and "\<not> dgt (limit_output param) (Fin 0)"
  shows "st_i (snd (updatePID error derivative st param dt)) =
           clamp_integral param (dadd (st_i st) (dmul error dt))"
  using assms
  by (simp add: updatePID_st_i antiwindup_applied_def clamp_output_def antiwindup_test_def)

lemma updatePID_keeps_NaN:
  "isnan (st_i st) \<Longrightarrow> isnan (st_i (snd (updatePID error derivative st param dt)))"
proof (cases "enabled param")
  case True
  assume "isnan (st_i st)"
  then show ?thesis
    using True by (simp add: updatePID_st_i isnan_iff clamp_integral_NaN dsub_NaN_left)
next
  case False
  assume "isnan (st_i st)"
  then show ?thesis
    using False by (simp add: updatePID_def)
qed

lemma run_updatePID_append:
  "run_updatePID param st (cs @ [(error, derivative, dt)]) =
     snd (updatePID error derivative (run_updatePID param st cs) param dt)"
  by (induction cs arbitrary: st) auto

lemma run_keeps_NaN: "isnan (st_i st) \<Longrightarrow> isnan (st_i (run_updatePID param st cs))"
  by (induction cs arbitrary: st) (auto simp: updatePID_keeps_NaN)

lemma scenario_step:
  assumes "enabled param" and "limit_i param = Fin 1" and "limit_output param = NaN"
    and "st_i st = Fin a" and "0 \<le> a"
  shows "st_i (snd (updatePID (Fin 5) derivative st param (Fin 1))) = Fin 1"
  using assms
  by (simp add: updatePID_no_output_limit clamp_integral_def Let_def dlt_def)

section \<open>Reset on start\<close>

text \<open>
  C1: the claim is that the starting hook reinitialises all four channel states,
  the height slot included. The code assigns the slot \<open>x\<close> twice and the slot \<open>z\<close>
  never: after \<open>starting\<close>, a height state that has been in use is still there and
  differs from a freshly constructed state, while the slots \<open>x\<close>, \<open>y\<close> and \<open>yaw\<close>
  are reinitialised.
\<close>

theorem reset_skips_z:
  "state_z (ctrl_state (starting (7::nat)
      (example_controller\<lparr>ctrl_state :=
         \<lparr>state_x = used_state, state_y = used_state,
          state_z = used_state, state_yaw = used_state\<rparr>\<rparr>))) = used_state
   \<and> used_state \<noteq> state_init
   \<and> state_z (reset s) = state_z s
   \<and> state_x (reset s) = state_init \<and> state_y (reset s) = state_init
   \<and> state_yaw (reset s) = state_init"
  by (simp add: starting_def reset_def used_state_def state_init_def example_controller_def)

section \<open>The integral and its limit\<close>

text \<open>
  C2, as amended: on an enabled channel whose \<open>limit_i\<close> is a positive finite value,
  after every call of a sequence of \<open>updatePID\<close> calls in which the accumulated sum
  \<open>i + error * dt\<close> is a number and the anti-windup correction is not applied, the
  magnitude of the stored integral is at most \<open>limit_i\<close>.
\<close>

theorem integral_within_limit:
  assumes "enabled param" and "limit_i param = Fin L" and "0 < L"
    and "\<not> isnan (dadd (st_i (run_updatePID param st0 cs)) (dmul error dt))"
    and "\<not> antiwindup_applied error derivative (run_updatePID param st0 cs) param dt"
  shows "dle (dabs (st_i (run_updatePID param st0 (cs @ [(error, derivative, dt)])))) (Fin L)"
  using assms
  by (simp add: run_updatePID_append updatePID_st_i clamp_integral_bound)

theorem integral_within_limit_witness:
  "\<not> antiwindup_applied (Fin 5) (Fin 0)
       (run_updatePID (gains_p\<lparr>k_p := Fin 0, limit_i := Fin 1, limit_output := Fin 10\<rparr>)
          state_init [(Fin 5, Fin 0, Fin 1)])
       (gains_p\<lparr>k_p := Fin 0, limit_i := Fin 1, limit_output := Fin 10\<rparr>) (Fin 1)
   \<and> dle (dabs (st_i (run_updatePID
                        (gains_p\<lparr>k_p := Fin 0, limit_i := Fin 1, limit_output := Fin 10\<rparr>)
                        state_init ([(Fin 5, Fin 0, Fin 1)] @ [(Fin 5, Fin 0, Fin 1)]))))
          (Fin 1)"
  using integral_within_limit
    [of "gains_p\<lparr>k_p := Fin 0, limit_i := Fin 1, limit_output := Fin 10\<rparr>" 1 state_init
        "[(Fin 5, Fin 0, Fin 1)]" "Fin 5" "Fin 1" "Fin 0"]
  by (simp add: gains_p_def antiwindup_applied_def eval_defs)

text \<open>
  The claim as stated fails when the correction runs: with \<open>limit_i = 1\<close>,
  \<open>limit_output = 1\<close> and \<open>k_p = 1\<close>, one call with error 5 and period 1 on a reset
  channel clamps the integral to 1, clamps the output, and then subtracts
  \<open>error * dt = 5\<close>, which leaves the integral at -4.
\<close>

theorem integral_exceeds_limit:
  "enabled (gains_p\<lparr>limit_i := Fin 1, limit_output := Fin 1\<rparr>)
   \<and> limit_i (gains_p\<lparr>limit_i := Fin 1, limit_output := Fin 1\<rparr>) = Fin 1
   \<and> st_i (run_updatePID (gains_p\<lparr>limit_i := Fin 1, limit_output := Fin 1\<rparr>) state_init
             [(Fin 5, Fin 0, Fin 1)]) = Fin (- 4)
   \<and> \<not> dle (dabs (st_i (run_updatePID (gains_p\<lparr>limit_i := Fin 1, limit_output := Fin 1\<rparr>)
                           state_init [(Fin 5, Fin 0, Fin 1)])))
            (limit_i (gains_p\<lparr>limit_i := Fin 1, limit_output := Fin 1\<rparr>))"
  by (simp add: gains_p_def eval_defs)

section \<open>The output clamp\<close>

text \<open>
  C3: on an enabled channel whose \<open>limit_output\<close> is positive, the output returned
  by \<open>updatePID\<close> never exceeds \<open>limit_i\<close> in magnitude, for every error, measured
  rate, period and prior state: the clamp compares with \<open>limit_i\<close> and assigns
  \<open>limit_i\<close>. When \<open>limit_i\<close> is a number the output lies within the bound; when it
  is not-a-number no comparison with it succeeds.
\<close>

theorem output_within_limit_i:
  assumes "enabled param" and "dgt (limit_output param) (Fin 0)"
  shows "\<not> dgt (dabs (fst (updatePID error derivative st param dt))) (dabs (limit_i param))
       \<and> (\<not> isnan (limit_i param) \<longrightarrow>
            dle (dabs (fst (updatePID error derivative st param dt))) (dabs (limit_i param)))"
proof (cases "isnan (limit_i param)")
  case True
  then show ?thesis by (simp add: isnan_iff dgt_NaN_right)
next
  case False
  then have "dle (dabs (fst (updatePID error derivative st param dt))) (dabs (limit_i param))"
    using assms by (simp add: updatePID_output clamp_output_bound)
  then show ?thesis by (simp add: dle_not_dgt)
qed

theorem output_within_limit_i_witness:
  "dgt (limit_output (gains_p\<lparr>limit_i := Fin 1, limit_output := Fin 3\<rparr>)) (Fin 0)
   \<and> fst (updatePID (Fin 5) (Fin 0) state_init
            (gains_p\<lparr>limit_i := Fin 1, limit_output := Fin 3\<rparr>) (Fin 1)) = Fin 1
   \<and> dle (dabs (fst (updatePID (Fin 5) (Fin 0) state_init
                       (gains_p\<lparr>limit_i := Fin 1, limit_output := Fin 3\<rparr>) (Fin 1))))
          (dabs (limit_i (gains_p\<lparr>limit_i := Fin 1, limit_output := Fin 3\<rparr>)))"
  using output_within_limit_i
    [of "gains_p\<lparr>limit_i := Fin 1, limit_output := Fin 3\<rparr>" "Fin 5" "Fin 0" state_init "Fin 1"]
  by (simp add: gains_p_def eval_defs)

section \<open>The returned output is a number\<close>


section \<open>The derivative term\<close>

text \<open>
  C5: in every call of \<open>updatePID\<close> on an enabled channel the stored derivative term
  is \<open>(error - p) / dt + derivative_prev - measured_rate\<close> when \<open>dt > 0\<close> and neither
  the previous error nor the previous measured rate is not-a-number, and
  \<open>- measured_rate\<close> otherwise; in particular on the first call after reset and for
  \<open>dt = 0\<close>, where no quotient enters the result.
\<close>

theorem derivative_term:
  assumes "enabled param"
  shows "st_d (snd (updatePID error derivative st param dt)) =
           (if dgt dt (Fin 0) \<and> \<not> isnan (st_p st) \<and> \<not> isnan (st_derivative st)
            then dsub (dadd (ddiv (dsub error (st_p st)) dt) (st_derivative st)) derivative
            else dneg derivative)
         \<and> st_d (snd (updatePID error derivative state_init param dt)) = dneg derivative
         \<and> st_d (snd (updatePID error derivative st param (Fin 0))) = dneg derivative"
  using assms
  by (simp add: updatePID_st_d differential_def state_init_def)

theorem derivative_term_witness:
  "st_d (snd (updatePID (Fin 1) (Fin 0)
                \<lparr>st_p = Fin 2, st_i = Fin 2, st_d = Fin 0, st_derivative = Fin 0\<rparr>
                gains_p (Fin 1))) = Fin (- 1)
   \<and> st_d (snd (updatePID (Fin 1) (Fin 3) state_init gains_p (Fin 1))) = Fin (- 3)
   \<and> st_d (snd (updatePID (Fin 1) (Fin 3)
                \<lparr>st_p = Fin 2, st_i = Fin 2, st_d = Fin 0, st_derivative = Fin 0\<rparr>
                gains_p (Fin 0))) = Fin (- 3)"
  using derivative_term
    [of gains_p "Fin 1" "Fin 0"
        "\<lparr>st_p = Fin 2, st_i = Fin 2, st_d = Fin 0, st_derivative = Fin 0\<rparr>" "Fin 1"]
    derivative_term
    [of gains_p "Fin 1" "Fin 3"
        "\<lparr>st_p = Fin 2, st_i = Fin 2, st_d = Fin 0, st_derivative = Fin 0\<rparr>" "Fin 1"]
  by (simp add: gains_p_def dsub_def)

section \<open>Disabled channels\<close>

text \<open>
  C6: on a channel whose parameter \<open>enabled\<close> is false, \<open>updatePID\<close> returns exactly
  zero and leaves the four fields of the state as they were, for every error,
  measured rate, period and prior state.
\<close>

theorem updatePID_disabled:
  assumes "\<not> enabled param"
  shows "updatePID error derivative st param dt = (Fin 0, st)"
  using assms by (simp add: updatePID_def)

theorem updatePID_disabled_witness:
  "updatePID (Fin 3) (Fin (- 2)) used_state (gains_p\<lparr>enabled := False\<rparr>) (Fin 1)
   = (Fin 0, used_state)"
  using updatePID_disabled
    [of "gains_p\<lparr>enabled := False\<rparr>" "Fin 3" "Fin (- 2)" used_state "Fin 1"]
  by (simp add: gains_p_def)

section \<open>The rotation into body coordinates\<close>

text \<open>
  C7, as amended: with \<open>command_n\<close> and \<open>command_w\<close> the outputs of the two horizontal
  PID steps, \<open>update\<close> sets
  \<open>linear.x = cos yaw * command_n + sin yaw * command_w\<close> and
  \<open>linear.y = - sin yaw * command_n + cos yaw * command_w\<close>; when both outputs are
  finite, the transform is the identity at \<open>yaw = 0\<close>.
\<close>

theorem body_frame_transform:
  assumes "command_n = fst (updatePID (error_n m) (linear_x (meas_twist m))
                              (state_x (ctrl_state c)) (param_xy (ctrl_parameters c)) dt)"
    and "command_w = fst (updatePID (error_w m) (linear_y (meas_twist m))
                              (state_y (ctrl_state c)) (param_xy (ctrl_parameters c)) dt)"
  shows "linear_x (fst (update m dt c)) =
           dadd (dmul (dcos (meas_yaw m)) command_n) (dmul (dsin (meas_yaw m)) command_w)
       \<and> linear_y (fst (update m dt c)) =
           dadd (dmul (dneg (dsin (meas_yaw m))) command_n)
                (dmul (dcos (meas_yaw m)) command_w)
       \<and> (isfinite command_n \<and> isfinite command_w \<longrightarrow>
            linear_x (fst (update (m\<lparr>meas_yaw := Fin 0\<rparr>) dt c)) = command_n
          \<and> linear_y (fst (update (m\<lparr>meas_yaw := Fin 0\<rparr>) dt c)) = command_w)"
proof -
  have gen: "linear_x (fst (update m' dt c)) =
           dadd (dmul (dcos (meas_yaw m')) command_n) (dmul (dsin (meas_yaw m')) command_w)
       \<and> linear_y (fst (update m' dt c)) =
           dadd (dmul (dneg (dsin (meas_yaw m'))) command_n)
                (dmul (dcos (meas_yaw m')) command_w)"
    if "error_n m' = error_n m" "error_w m' = error_w m" "meas_twist m' = meas_twist m" for m'
    using that unfolding assms
    by (simp add: update_def Let_def split: prod.split)
  show ?thesis
  proof (intro conjI impI)
    assume fin: "isfinite command_n \<and> isfinite command_w"
    then obtain a b where ab: "command_n = Fin a" "command_w = Fin b"
      by (cases command_n; cases command_w) auto
    show "linear_x (fst (update (m\<lparr>meas_yaw := Fin 0\<rparr>) dt c)) = command_n"
      using gen [of "m\<lparr>meas_yaw := Fin 0\<rparr>"] by (simp add: ab)
    show "linear_y (fst (update (m\<lparr>meas_yaw := Fin 0\<rparr>) dt c)) = command_w"
      using gen [of "m\<lparr>meas_yaw := Fin 0\<rparr>"] by (simp add: ab)
  qed (use gen [of m] in simp_all)
qed

theorem body_frame_transform_witness:
  "isfinite (Fin 2) \<and> isfinite (Fin 6)
   \<and> linear_x (fst (update (example_measurement\<lparr>meas_yaw := Fin 0\<rparr>) (Fin 1)
                       example_controller)) = Fin 2
   \<and> linear_y (fst (update (example_measurement\<lparr>meas_yaw := Fin 0\<rparr>) (Fin 1)
                       example_controller)) = Fin 6"
  using body_frame_transform
    [of "Fin 2" example_measurement example_controller "Fin 1" "Fin 6"]
  by (simp add: example_measurement_def example_controller_def gains_p_def
        twist_default_def eval_defs)

text \<open>
  The claim as stated fails on an infinite output: at \<open>yaw = 0\<close>, with a west error
  of plus infinity and gains \<open>k_p = k_i = 1\<close>, the north output is 2 and the west
  output is plus infinity; \<open>sin 0 * command_w\<close> is zero times infinity, so \<open>linear.x\<close>
  is not-a-number and not \<open>command_n\<close>.
\<close>

theorem body_frame_transform_infinite:
  "fst (updatePID (error_n (example_measurement\<lparr>error_w := PInf\<rparr>))
          (linear_x (meas_twist (example_measurement\<lparr>error_w := PInf\<rparr>)))
          (state_x (ctrl_state example_controller))
          (param_xy (ctrl_parameters example_controller)) (Fin 1)) = Fin 2
   \<and> fst (updatePID (error_w (example_measurement\<lparr>error_w := PInf\<rparr>))
          (linear_y (meas_twist (example_measurement\<lparr>error_w := PInf\<rparr>)))
          (state_y (ctrl_state example_controller))
          (param_xy (ctrl_parameters example_controller)) (Fin 1)) = PInf
   \<and> meas_yaw (example_measurement\<lparr>error_w := PInf\<rparr>) = Fin 0
   \<and> linear_x (fst (update (example_measurement\<lparr>error_w := PInf\<rparr>) (Fin 1)
                       example_controller)) = NaN"
  by (simp add: update_def example_measurement_def example_controller_def gains_p_def
        twist_default_def eval_defs)

section \<open>The saturation scenario\<close>

text \<open>
  C8: on a freshly reset enabled channel with \<open>limit_i = 1\<close>, \<open>k_i = 1\<close> and the
  default \<open>limit_output\<close> (not-a-number), after every non-empty sequence of calls
  with error 5 and period 1 the stored integral is exactly 1: after the first call
  and after each later one.
\<close>

theorem integral_saturates:
  assumes "enabled param" and "limit_i param = Fin 1" and "k_i param = Fin 1"
    and "limit_output param = NaN"
    and "cs \<noteq> []" and "\<forall>c \<in> set cs. fst c = Fin 5 \<and> snd (snd c) = Fin 1"
  shows "st_i (run_updatePID param state_init cs) = Fin 1"
  using assms(5,6)
proof (induction cs rule: rev_induct)
  case Nil
  then show ?case by simp
next
  case (snoc c cs)
  obtain derivative where c: "c = (Fin 5, derivative, Fin 1)"
    using snoc.prems(2) by (cases c) auto
  have "\<exists>a. st_i (run_updatePID param state_init cs) = Fin a \<and> 0 \<le> a"
  proof (cases "cs = []")
    case True
    then show ?thesis by (simp add: state_init_def)
  next
    case False
    then have "st_i (run_updatePID param state_init cs) = Fin 1"
      using snoc.IH snoc.prems(2) by simp
    then show ?thesis by simp
  qed
  then obtain a where "st_i (run_updatePID param state_init cs) = Fin a" and "0 \<le> a"
    by blast
  then show ?case
    unfolding c run_updatePID_append
    using scenario_step [OF assms(1,2,4)] by blast
qed

theorem integral_saturates_witness:
  "st_i (run_updatePID (gains_p\<lparr>k_i := Fin 1, limit_i := Fin 1\<rparr>) state_init
           [(Fin 5, Fin 0, Fin 1)]) = Fin 1
   \<and> st_i (run_updatePID (gains_p\<lparr>k_i := Fin 1, limit_i := Fin 1\<rparr>) state_init
           [(Fin 5, Fin 0, Fin 1), (Fin 5, Fin 2, Fin 1), (Fin 5, NaN, Fin 1)]) = Fin 1"
  using integral_saturates
    [of "gains_p\<lparr>k_i := Fin 1, limit_i := Fin 1\<rparr>" "[(Fin 5, Fin 0, Fin 1)]"]
    integral_saturates
    [of "gains_p\<lparr>k_i := Fin 1, limit_i := Fin 1\<rparr>"
        "[(Fin 5, Fin 0, Fin 1), (Fin 5, Fin 2, Fin 1), (Fin 5, NaN, Fin 1)]"]
  by (simp add: gains_p_def)

section \<open>An output limit without an integral limit\<close>

text \<open>
  C9: when \<open>limit_output\<close> is positive and \<open>limit_i\<close> is not-a-number, which is what
  \<open>initParameters\<close> loads when the key is absent, neither branch of the output
  clamp fires and the anti-windup correction does not run in any call: the call
  returns the sanitised raw output and stores the unclamped integral. The output
  can then exceed \<open>limit_output\<close>: with \<open>k_p = 1\<close> and \<open>limit_output = 1\<close>, an error of
  2 gives the output 2.
\<close>

theorem no_clamp_without_limit_i:
  assumes "enabled param" and "dgt (limit_output param) (Fin 0)" and "limit_i param = NaN"
  shows "clamp_output param out = (out, 0)
       \<and> \<not> antiwindup_applied error derivative st param dt
       \<and> updatePID error derivative st param dt =
           (checknan (dadd (dadd (dmul (k_p param) error)
                                 (dmul (k_i param) (dadd (st_i st) (dmul error dt))))
                           (dmul (k_d param) (differential error derivative st dt))),
            \<lparr>st_p = error, st_i = dadd (st_i st) (dmul error dt),
             st_d = differential error derivative st dt, st_derivative = derivative\<rparr>)
       \<and> limit_i (initParameters (nh\<lparr>get_limit_i := None\<rparr>)) = NaN
       \<and> fst (updatePID (Fin 2) (Fin 0) state_init (gains_p\<lparr>limit_output := Fin 1\<rparr>) (Fin 1))
           = Fin 2
       \<and> dgt (Fin 2) (limit_output (gains_p\<lparr>limit_output := Fin 1\<rparr>))"
proof -
  have c: "clamp_output param out' = (out', 0)" for out'
    using assms(3) by (rule clamp_output_limit_i_NaN)
  have i: "clamp_integral param v = v" for v
    using assms(3) by (simp add: clamp_integral_def)
  have a: "\<not> antiwindup_applied error derivative st param dt"
    by (simp add: antiwindup_applied_def c antiwindup_test_def)
  have u: "updatePID error derivative st param dt =
           (checknan (dadd (dadd (dmul (k_p param) error)
                                 (dmul (k_i param) (dadd (st_i st) (dmul error dt))))
                           (dmul (k_d param) (differential error derivative st dt))),
            \<lparr>st_p = error, st_i = dadd (st_i st) (dmul error dt),
             st_d = differential error derivative st dt, st_derivative = derivative\<rparr>)"
    using assms(1) by (simp add: updatePID_def c i antiwindup_test_def Let_def)
  have n: "limit_i (initParameters (nh\<lparr>get_limit_i := None\<rparr>)) = NaN"
    by (simp add: initParameters_def)
  have e: "fst (updatePID (Fin 2) (Fin 0) state_init (gains_p\<lparr>limit_output := Fin 1\<rparr>) (Fin 1))
           = Fin 2"
    by (simp add: gains_p_def eval_defs)
  show ?thesis using c a u n e by (simp add: gains_p_def)
qed

theorem no_clamp_without_limit_i_witness:
  "dgt (limit_output (gains_p\<lparr>limit_output := Fin 1\<rparr>)) (Fin 0)
   \<and> limit_i (gains_p\<lparr>limit_output := Fin 1\<rparr>) = NaN
   \<and> clamp_output (gains_p\<lparr>limit_output := Fin 1\<rparr>) (Fin 7) = (Fin 7, 0)
   \<and> \<not> antiwindup_applied (Fin 7) (Fin 0) state_init (gains_p\<lparr>limit_output := Fin 1\<rparr>) (Fin 1)
   \<and> updatePID (Fin 7) (Fin 0) state_init (gains_p\<lparr>limit_output := Fin 1\<rparr>) (Fin 1)
       = (Fin 7, \<lparr>st_p = Fin 7, st_i = Fin 7, st_d = Fin 0, st_derivative = Fin 0\<rparr>)"
  using no_clamp_without_limit_i
    [of "gains_p\<lparr>limit_output := Fin 1\<rparr>" "Fin 7" "Fin 7" "Fin 0" state_init "Fin 1"]
  by (simp add: gains_p_def checknan_def differential_def state_init_def)

section \<open>A not-a-number integral stays\<close>

text \<open>
  C10: only the returned output is sanitised. On an enabled channel a call with a
  not-a-number error leaves the stored integral not-a-number, and once the stored
  integral is not-a-number it is not-a-number after every further sequence of
  calls, whatever their inputs, while each call still returns a number.
\<close>

theorem integral_NaN_persists:
  assumes "enabled param"
  shows "isnan (st_i (snd (updatePID NaN derivative0 st0 param dt0)))
       \<and> (isnan (st_i st) \<longrightarrow>
            isnan (st_i (run_updatePID param st cs))
          \<and> \<not> isnan (fst (updatePID error derivative (run_updatePID param st cs) param dt)))"
proof -
  have "\<not> antiwindup_applied NaN derivative0 st0 param dt0"
    by (simp add: antiwindup_applied_def antiwindup_test_def)
  then have "isnan (st_i (snd (updatePID NaN derivative0 st0 param dt0)))"
    using assms by (simp add: updatePID_st_i dadd_NaN_right clamp_integral_NaN)
  then show ?thesis by (simp add: run_keeps_NaN updatePID_output_checked)
qed

theorem integral_NaN_persists_witness:
  "isnan (st_i (snd (updatePID NaN (Fin 0) state_init gains_p (Fin 1))))
   \<and> isnan (st_i (run_updatePID gains_p
                   (snd (updatePID NaN (Fin 0) state_init gains_p (Fin 1)))
                   [(Fin 1, Fin 0, Fin 1), (Fin (- 3), Fin 0, Fin 0)]))
   \<and> \<not> isnan (fst (updatePID (Fin 1) (Fin 0)
                     (run_updatePID gains_p
                        (snd (updatePID NaN (Fin 0) state_init gains_p (Fin 1)))
                        [(Fin 1, Fin 0, Fin 1), (Fin (- 3), Fin 0, Fin 0)])
                     gains_p (Fin 1)))"
  using integral_NaN_persists
    [of gains_p "Fin 0" state_init "Fin 1"
        "snd (updatePID NaN (Fin 0) state_init gains_p (Fin 1))"
        "[(Fin 1, Fin 0, Fin 1), (Fin (- 3), Fin 0, Fin 0)]" "Fin 1" "Fin 0" "Fin 1"]
  by (simp add: gains_p_def)

end
